theory Spec2Isabelle
  imports Complex_Main "HOL-Library.Sublist"
begin

section \<open>Data model\<close>

text \<open>
  The journal keeps four tables: entries, summaries, conversations and messages.
  A mood is validated on entry creation against the three literals \<open>good\<close>, \<open>okay\<close>,
  \<open>rough\<close> (or is NULL), so the column is a three-valued datatype under \<open>option\<close>.
  Timestamps are milliseconds since the epoch, as \<open>Date.getTime()\<close> gives them.
  Averages are JavaScript numbers in the source; they are modelled as exact rationals.
\<close>

datatype mood = Good | Okay | Rough

record entry =
  e_id :: string
  e_user_id :: string
  e_content :: string
  e_mood :: "mood option"
  e_tags :: "string list"
  e_themes :: "string list"
  e_word_count :: nat
  e_created_at :: int
  e_deleted_at :: "int option"

definition msPerDay :: int where
  "msPerDay = 24 * 60 * 60 * 1000"

section \<open>Mood trend of the context assembler (services/claude, calculateMoodTrend)\<close>

text \<open>The \<open>switch\<close> of \<open>calculateMoodTrend\<close>.\<close>

definition moodValue :: "mood \<Rightarrow> int" where
  "moodValue m = (case m of Good \<Rightarrow> 1 | Okay \<Rightarrow> 0 | Rough \<Rightarrow> - 1)"

text \<open>\<open>entries.filter(e => e.mood).map(...)\<close>: entries without a mood are dropped first.\<close>

fun moodValues :: "mood option list \<Rightarrow> int list" where
  "moodValues [] = []"
| "moodValues (None # entries) = moodValues entries"
| "moodValues (Some m # entries) = moodValue m # moodValues entries"

text \<open>\<open>xs.reduce((a, b) => a + b, 0)\<close>\<close>

definition reduceSum :: "int list \<Rightarrow> int" where
  "reduceSum xs = foldl (\<lambda>a b. a + b) 0 xs"

definition calculateMoodTrend :: "mood option list \<Rightarrow> string" where
  "calculateMoodTrend entries =
    (let mv = moodValues entries in
     if length mv < 2 then ''Not enough data''
     else
       let midpoint = length mv div 2;
           recentAvg = (of_int (reduceSum (take midpoint mv)) :: rat) / of_nat midpoint;
           olderAvg = (of_int (reduceSum (drop midpoint mv)) :: rat) / of_nat (length mv - midpoint)
       in if recentAvg > olderAvg + 2 / 10 then ''Trending up compared to earlier this week''
          else if recentAvg < olderAvg - 2 / 10 then ''Trending down compared to earlier this week''
          else ''Relatively stable this week'')"

section \<open>Aggregations of the insights route (routes/insights, GET /)\<close>

datatype trend = Up | Stable | Down

text \<open>The \<open>weights\<close> object of \<open>moodScore\<close>.\<close>

definition weights :: "mood \<Rightarrow> int" where
  "weights m = (case m of Good \<Rightarrow> 1 | Okay \<Rightarrow> 0 | Rough \<Rightarrow> - 1)"

text \<open>
  \<open>moodScore\<close>: the reduce adds the weight of every entry that has a mood and divides
  by \<open>Math.max(entries.length, 1)\<close>, the length of the whole half.
\<close>

definition moodScore :: "mood option list \<Rightarrow> rat" where
  "moodScore entries =
     of_int (foldl (\<lambda>sum e. case e of Some m \<Rightarrow> sum + weights m | None \<Rightarrow> sum) 0 entries)
       / of_nat (max (length entries) 1)"

definition moodTrend :: "mood option list \<Rightarrow> trend" where
  "moodTrend entries =
    (let midpoint = length entries div 2;
         firstHalf = drop midpoint entries;
         secondHalf = take midpoint entries;
         firstHalfScore = moodScore firstHalf;
         secondHalfScore = moodScore secondHalf
     in if secondHalfScore > firstHalfScore + 1 / 10 then Up
        else if secondHalfScore < firstHalfScore - 1 / 10 then Down
        else Stable)"



text \<open>
  A JavaScript \<open>Map\<close> keeps its keys in insertion order: \<open>set\<close> on a present key
  replaces the value in place, on a new key it appends. It is an association list.
\<close>

fun mapSet :: "string \<Rightarrow> nat \<Rightarrow> (string \<times> nat) list \<Rightarrow> (string \<times> nat) list" where
  "mapSet k v [] = [(k, v)]"
| "mapSet k v ((k', v') # m) = (if k' = k then (k', v) # m else (k', v') # mapSet k v m)"

text \<open>\<open>counts.set(key, (counts.get(key) || 0) + 1)\<close>\<close>

definition countInto :: "(string \<times> nat) list \<Rightarrow> string \<Rightarrow> (string \<times> nat) list" where
  "countInto counts key =
     mapSet key ((case map_of counts key of Some c \<Rightarrow> c | None \<Rightarrow> 0) + 1) counts"

text \<open>The two nested \<open>forEach\<close> loops, over the entries and over the labels of each.\<close>

definition countLabels :: "string list list \<Rightarrow> (string \<times> nat) list" where
  "countLabels labelss = foldl (\<lambda>counts labels. foldl countInto counts labels) [] labelss"

text \<open>
  \<open>.sort((a, b) => b[1] - a[1])\<close>: descending by count. \<open>Array.prototype.sort\<close> is
  stable, as is \<open>sort_key\<close>, so equal counts stay in insertion order.
\<close>

definition sortByCountDesc :: "(string \<times> nat) list \<Rightarrow> (string \<times> nat) list" where
  "sortByCountDesc counts = sort_key (\<lambda>a. - int (snd a)) counts"

definition topTags :: "entry list \<Rightarrow> (string \<times> nat) list" where
  "topTags entries = take 5 (sortByCountDesc (countLabels (map e_tags entries)))"


subsection \<open>Streak (calculateStreak)\<close>




subsection \<open>Queries on the entries table\<close>

text \<open>
  \<open>ORDER BY created_at DESC\<close>; SQL leaves the order of equal timestamps open, the
  model keeps them in table order.
\<close>

definition orderByCreatedDesc :: "entry list \<Rightarrow> entry list" where
  "orderByCreatedDesc rows = sort_key (\<lambda>e. - e_created_at e) rows"

text \<open>
  \<open>WHERE user_id = $1 AND created_at >= $2 AND deleted_at IS NULL ORDER BY created_at DESC\<close>,
  the query of the insights route and (with \<open>LIMIT 10\<close>) of the context assembler.
\<close>

definition selectSince :: "string \<Rightarrow> int \<Rightarrow> entry list \<Rightarrow> entry list" where
  "selectSince userId startDate tbl =
     orderByCreatedDesc
       (filter (\<lambda>e. e_user_id e = userId \<and> startDate \<le> e_created_at e \<and> e_deleted_at e = None) tbl)"


text \<open>The period of the insights route: \<open>week\<close> is the default, also for unknown values.\<close>

definition startDateOf :: "int \<Rightarrow> string option \<Rightarrow> int" where
  "startDateOf now period =
     (case period of
        None \<Rightarrow> now - 7 * msPerDay
      | Some p \<Rightarrow>
          if p = ''week'' then now - 7 * msPerDay
          else if p = ''month'' then now - 30 * msPerDay
          else if p = ''quarter'' then now - 90 * msPerDay
          else now - 7 * msPerDay)"

section \<open>The store, the Completion Service and the environment\<close>

datatype period_type = Weekly | Monthly

text \<open>A \<open>DATE\<close> column holds a day, numbered from the epoch.\<close>

record summary =
  s_user_id :: string
  s_period_start :: int
  s_period_end :: int
  s_period_type :: period_type
  s_summary :: string
  s_entry_count :: nat

datatype session_type = Freeform | EntryReflection | WeeklyReview

record conversation =
  c_id :: string
  c_user_id :: string
  c_entry_id :: "string option"
  c_session_type :: session_type
  c_created_at :: int
  c_updated_at :: int
  c_deleted_at :: "int option"

datatype role = User | Assistant

record message =
  m_conversation_id :: string
  m_role :: role
  m_content :: string
  m_created_at :: int

record tables =
  entries :: "entry list"
  summaries :: "summary list"
  conversations :: "conversation list"
  messages :: "message list"

text \<open>
  A request to \<open>anthropic.messages.create\<close> (the model name is a constant and left
  out) and what comes back: the promise rejects, or it resolves to content blocks.
\<close>

record llm_request =
  max_tokens :: nat
  system :: string
  messages_of :: "(role \<times> string) list"

datatype block = TextBlock string | OtherBlock

datatype llm_outcome = Rejected string | Responded "block list"

datatype json = JNull | JBool bool | JNum int | JStr string | JArr "json list"
  | JObj "(string \<times> json) list"

text \<open>
  The world a request runs in: the tables, the number of queries issued so far and
  the requests sent to the Completion Service so far.
\<close>

record world =
  db :: tables
  queries :: nat
  requests :: "llm_request list"

text \<open>
  What the handlers do not decide: the clock, the runtime's date functions, the
  identifier the database gives a new row, whether the n-th query throws, what the
  Completion Service does with the n-th request, and \<open>JSON.parse\<close> (\<open>None\<close> when
  it throws).
\<close>

record env =
  clock :: int
  isoDate :: "int \<Rightarrow> string"
  monthStart :: "int \<Rightarrow> int"
  newId :: "nat \<Rightarrow> string"
  dbDown :: "nat \<Rightarrow> bool"
  svc :: "nat \<Rightarrow> llm_request \<Rightarrow> llm_outcome"
  parseJSON :: "string \<Rightarrow> json option"

datatype error = StoreError | CompletionError string

type_synonym 'a io = "world \<Rightarrow> (error + 'a) \<times> world"

definition ret :: "'a \<Rightarrow> 'a io" where
  "ret x w = (Inr x, w)"

text \<open>\<open>await\<close> in sequence: a thrown error ends the handler with the world as it is then.\<close>

definition bindIO :: "'a io \<Rightarrow> ('a \<Rightarrow> 'b io) \<Rightarrow> 'b io" where
  "bindIO m f w = (case m w of (Inl e, w') \<Rightarrow> (Inl e, w') | (Inr x, w') \<Rightarrow> f x w')"

text \<open>\<open>await query(...)\<close>: throws when the store is down, else runs on the tables.\<close>

definition query :: "env \<Rightarrow> (tables \<Rightarrow> 'a \<times> tables) \<Rightarrow> 'a io" where
  "query env q w =
     (if dbDown env (queries w) then (Inl StoreError, w\<lparr>queries := Suc (queries w)\<rparr>)
      else case q (db w) of (r, d) \<Rightarrow> (Inr r, w\<lparr>db := d, queries := Suc (queries w)\<rparr>))"

definition select :: "env \<Rightarrow> (tables \<Rightarrow> 'a) \<Rightarrow> 'a io" where
  "select env f = query env (\<lambda>d. (f d, d))"

text \<open>\<open>await anthropic.messages.create(...)\<close>\<close>

definition messagesCreate :: "env \<Rightarrow> llm_request \<Rightarrow> block list io" where
  "messagesCreate env r w =
     (case svc env (length (requests w)) r of
        Rejected e \<Rightarrow> (Inl (CompletionError e), w\<lparr>requests := requests w @ [r]\<rparr>)
      | Responded blocks \<Rightarrow> (Inr blocks, w\<lparr>requests := requests w @ [r]\<rparr>))"

text \<open>\<open>response.content.find(block => block.type === 'text')\<close>\<close>

fun findText :: "block list \<Rightarrow> string option" where
  "findText [] = None"
| "findText (TextBlock t # blocks) = Some t"
| "findText (OtherBlock # blocks) = findText blocks"

text \<open>\<open>textBlock?.text || fallback\<close>: the fallback also replaces an empty text.\<close>

definition textOr :: "block list \<Rightarrow> string \<Rightarrow> string" where
  "textOr blocks fallback =
     (case findText blocks of None \<Rightarrow> fallback | Some t \<Rightarrow> if t = [] then fallback else t)"

section \<open>Context assembler and prompt builder (services/claude)\<close>

record recent_entry =
  r_date :: string
  r_content :: string
  r_mood :: "mood option"
  r_themes :: "string list"

record ContextPayload =
  recentEntries :: "recent_entry list"
  moodTrend_cp :: string
  recurringThemes :: "string list"
  longTermSummary :: string

text \<open>\<open>Array.prototype.join\<close>\<close>

fun joinWith :: "string \<Rightarrow> string list \<Rightarrow> string" where
  "joinWith sep [] = []"
| "joinWith sep [x] = x"
| "joinWith sep (x # y # ys) = x @ sep @ joinWith sep (y # ys)"

definition BASE_SYSTEM_PROMPT :: string where
  \<open>BASE_SYSTEM_PROMPT = joinWith ''\<newline>''
     [''You are Tom's journal companion - a thoughtful presence who reads alongside him,'',
      ''notices patterns, and engages when he wants to think out loud.'',
      '''',
      ''## Your Core Purpose'',
      '''',
      ''You're not here to fix things or optimise Tom's life. You're here to help him'',
      ''*process* - to turn the noise in his head into something he can look at, examine,'',
      ''and understand. Sometimes that means asking questions. Sometimes it means just'',
      ''reflecting back what you hear. Sometimes it means noticing something he missed.'',
      '''',
      ''## How You Show Up'',
      '''',
      ''### Active Listening Over Advice'',
      ''Your default mode is curiosity, not solution-finding. When Tom shares something:'',
      ''- First, acknowledge what he's actually saying (not what you think he should focus on)'',
      ''- Reflect back the emotional texture, not just the facts'',
      ''- Ask questions that deepen exploration, not questions that steer toward answers'',
      '''',
      ''### Pattern Recognition'',
      ''You have access to Tom's journal history. Use it. Reference specific entries,'',
      ''notice when themes repeat, track how his language changes over time.'',
      '''',
      ''### Match His Energy'',
      ''Read the room. If he's venting, validate. If he's processing, follow his thread.'',
      ''If he's celebrating, celebrate with him. If he's low energy, keep responses shorter.'',
      '''',
      ''### Directness Over Comfort'',
      ''Tom values honesty. Don't hedge with "it might be worth considering..." - just say the thing.'',
      '''',
      ''### One Thread at a Time'',
      ''Don't overwhelm with multiple questions or observations. Pick the most interesting'',
      ''thread and pull it. Let him guide where this goes.'',
      '''',
      ''## Communication Style'',
      '''',
      ''- Dry humour welcome - Tom appreciates wit'',
      ''- Concise by default - expand only if asked'',
      ''- Specific over general - reference actual things he said'',
      ''- Questions are single - one at a time'',
      ''- No therapy-speak - avoid "processing," "holding space," etc.'']\<close>

definition moodText :: "mood \<Rightarrow> string" where
  "moodText m = (case m of Good \<Rightarrow> ''good'' | Okay \<Rightarrow> ''okay'' | Rough \<Rightarrow> ''rough'')"

text \<open>
  \<open>ORDER BY period_start DESC LIMIT 1\<close> over the monthly summaries of the user.
\<close>

definition selectLatestMonthly :: "string \<Rightarrow> summary list \<Rightarrow> summary list" where
  "selectLatestMonthly userId tbl =
     take 1 (sort_key (\<lambda>s. - s_period_start s)
       (filter (\<lambda>s. s_user_id s = userId \<and> s_period_type s = Monthly) tbl))"

definition assembleContext :: "env \<Rightarrow> string \<Rightarrow> ContextPayload io" where
  "assembleContext env userId =
     (let sevenDaysAgo = clock env - 7 * msPerDay in
      bindIO (select env (\<lambda>d. take 10 (selectSince userId sevenDaysAgo (entries d))))
        (\<lambda>rows.
          let recent = map (\<lambda>e. \<lparr>r_date = isoDate env (e_created_at e), r_content = e_content e,
                                  r_mood = e_mood e, r_themes = e_themes e\<rparr>) rows;
              trend = calculateMoodTrend (map r_mood recent);
              themeCounts = countLabels (map r_themes recent);
              recurring = take 5 (map fst
                 (sortByCountDesc (filter (\<lambda>tc. 2 \<le> snd tc) themeCounts)))
          in bindIO (select env (\<lambda>d. selectLatestMonthly userId (summaries d)))
               (\<lambda>summaryRows.
                  ret \<lparr>recentEntries = recent, moodTrend_cp = trend,
                       recurringThemes = recurring,
                       longTermSummary =
                         (case summaryRows of [] \<Rightarrow> [] | s # rest \<Rightarrow> s_summary s)\<rparr>)))"

definition renderRecentEntry :: "recent_entry \<Rightarrow> string" where
  "renderRecentEntry e =
     ''\<newline>**'' @ r_date e @ ''** (''
       @ (case r_mood e of Some m \<Rightarrow> moodText m | None \<Rightarrow> ''no mood logged'')
       @ '')\<newline>'' @ r_content e @ ''\<newline>''"

definition contextSection :: "ContextPayload \<Rightarrow> string" where
  "contextSection context =
     ''\<newline>## Current Context\<newline>\<newline>### Recent Entries (Last 7 Days)\<newline>''
       @ joinWith ''\<newline>---\<newline>'' (map renderRecentEntry (recentEntries context))
       @ ''\<newline>\<newline>### Mood Pattern\<newline>''
       @ moodTrend_cp context
       @ ''\<newline>\<newline>### Recurring Themes\<newline>''
       @ (if 0 < length (recurringThemes context) then joinWith '', '' (recurringThemes context)
          else ''No clear patterns yet'')
       @ ''\<newline>\<newline>### Long-Term Context\<newline>''
       @ (if longTermSummary context \<noteq> [] then longTermSummary context
          else ''No long-term summary available yet'')
       @ ''\<newline>''"

text \<open>\<open>currentEntry ? ... : ''\<close>: an absent and an empty text both give nothing.\<close>

definition sessionSection :: "string option \<Rightarrow> string" where
  "sessionSection currentEntry =
     (case currentEntry of
        None \<Rightarrow> []
      | Some t \<Rightarrow>
          if t \<noteq> []
          then ''\<newline>## This Session\<newline>\<newline>### Current Entry Being Discussed\<newline>''
                 @ t @ ''\<newline>''
          else [])"

definition buildSystemPrompt :: "ContextPayload \<Rightarrow> string option \<Rightarrow> string" where
  "buildSystemPrompt context currentEntry =
     BASE_SYSTEM_PROMPT @ ''\<newline>\<newline>---\<newline>'' @ contextSection context
       @ ''\<newline>'' @ sessionSection currentEntry"

definition chat :: "env \<Rightarrow> ContextPayload \<Rightarrow> (role \<times> string) list \<Rightarrow> string option \<Rightarrow> string io" where
  "chat env context conversationHistory currentEntry =
     (let systemPrompt = buildSystemPrompt context currentEntry in
      bindIO (messagesCreate env
                \<lparr>max_tokens = 1024, system = systemPrompt,
                 messages_of = map (\<lambda>m. (fst m, snd m)) conversationHistory\<rparr>)
        (\<lambda>response. ret (textOr response ''I'm having trouble responding right now.'')))"








section \<open>Route handlers\<close>

definition DEFAULT_USER :: string where
  "DEFAULT_USER = ''00000000-0000-0000-0000-000000000001''"

text \<open>\<open>req.headers['x-user-id'] || DEFAULT_USER\<close>\<close>

definition userIdOf :: "string option \<Rightarrow> string" where
  "userIdOf header =
     (case header of None \<Rightarrow> DEFAULT_USER | Some u \<Rightarrow> if u = [] then DEFAULT_USER else u)"

text \<open>A string that JavaScript takes as true: present and not empty.\<close>

definition truthy :: "string option \<Rightarrow> string option" where
  "truthy x = (case x of None \<Rightarrow> None | Some v \<Rightarrow> if v = [] then None else Some v)"

subsection \<open>routes/insights\<close>





text \<open>\<open>toISOString().split('T')[0]\<close> passed for a \<open>DATE\<close> column.\<close>

definition dayOf :: "int \<Rightarrow> int" where
  "dayOf t = t div msPerDay"




text \<open>GET /api/insights/summary\<close>






subsection \<open>routes/chat\<close>

record chat_body =
  message :: string
  conversationId :: "string option"
  entryId :: "string option"

datatype chat_response = NotFound404 | ChatJson string string

text \<open>The conversation of the turn: the one named, if it is the user's, or a new one.\<close>

definition findOrCreateConversation :: "env \<Rightarrow> string \<Rightarrow> chat_body \<Rightarrow> conversation option io" where
  "findOrCreateConversation env userId body w =
     (case truthy (conversationId body) of
        Some cid \<Rightarrow>
          bindIO (select env (\<lambda>d. filter (\<lambda>c. c_id c = cid \<and> c_user_id c = userId) (conversations d)))
            (\<lambda>rows. ret (case rows of [] \<Rightarrow> None | c # others \<Rightarrow> Some c)) w
      | None \<Rightarrow>
          (let sessionType = (case truthy (entryId body) of Some e \<Rightarrow> EntryReflection
                                                         | None \<Rightarrow> Freeform);
               c = \<lparr>c_id = newId env (queries w), c_user_id = userId,
                    c_entry_id = truthy (entryId body), c_session_type = sessionType,
                    c_created_at = clock env, c_updated_at = clock env, c_deleted_at = None\<rparr>
           in query env (\<lambda>d. (Some c, d\<lparr>conversations := conversations d @ [c]\<rparr>)) w))"

definition insertMessage :: "env \<Rightarrow> string \<Rightarrow> role \<Rightarrow> string \<Rightarrow> unit io" where
  "insertMessage env cid r text =
     query env (\<lambda>d. ((), d\<lparr>messages := messages d
        @ [\<lparr>m_conversation_id = cid, m_role = r, m_content = text, m_created_at = clock env\<rparr>]\<rparr>))"

text \<open>\<open>WHERE conversation_id = $1 ORDER BY created_at ASC\<close>\<close>

definition selectHistory :: "env \<Rightarrow> string \<Rightarrow> (role \<times> string) list io" where
  "selectHistory env cid =
     select env (\<lambda>d. map (\<lambda>m. (m_role m, m_content m))
       (sort_key m_created_at (filter (\<lambda>m. m_conversation_id m = cid) (messages d))))"

text \<open>\<open>SELECT content FROM entries WHERE id = $1\<close>, when the conversation has an entry.\<close>

definition selectCurrentEntry :: "env \<Rightarrow> conversation \<Rightarrow> string option io" where
  "selectCurrentEntry env conversation =
     (case truthy (c_entry_id conversation) of
        None \<Rightarrow> ret None
      | Some eid \<Rightarrow>
          bindIO (select env (\<lambda>d. filter (\<lambda>e. e_id e = eid) (entries d)))
            (\<lambda>rows. ret (case rows of [] \<Rightarrow> None | e # others \<Rightarrow> Some (e_content e))))"

definition touchConversation :: "env \<Rightarrow> string \<Rightarrow> unit io" where
  "touchConversation env cid =
     query env (\<lambda>d. ((), d\<lparr>conversations :=
        map (\<lambda>c. if c_id c = cid then c\<lparr>c_updated_at := clock env\<rparr> else c) (conversations d)\<rparr>))"

text \<open>POST /api/chat, after the body has passed validation.\<close>

definition chatPost :: "env \<Rightarrow> string option \<Rightarrow> chat_body \<Rightarrow> chat_response io" where
  "chatPost env header body =
     (let userId = userIdOf header in
      bindIO (findOrCreateConversation env userId body)
        (\<lambda>found. case found of
           None \<Rightarrow> ret NotFound404
         | Some conversation \<Rightarrow>
             bindIO (insertMessage env (c_id conversation) User (message body))
               (\<lambda>u1.
             bindIO (selectHistory env (c_id conversation))
               (\<lambda>conversationHistory.
             bindIO (assembleContext env userId)
               (\<lambda>context.
             bindIO (selectCurrentEntry env conversation)
               (\<lambda>currentEntry.
             bindIO (chat env context conversationHistory currentEntry)
               (\<lambda>response.
             bindIO (insertMessage env (c_id conversation) Assistant response)
               (\<lambda>u2.
             bindIO (touchConversation env (c_id conversation))
               (\<lambda>u3. ret (ChatJson (c_id conversation) response))))))))))"

subsection \<open>Vocabulary for stating the properties\<close>



text \<open>The payload the context assembler returns for a user without entries or summaries.\<close>

definition emptyContext :: ContextPayload where
  "emptyContext = \<lparr>recentEntries = [], moodTrend_cp = ''Not enough data'',
     recurringThemes = [], longTermSummary = []\<rparr>"

text \<open>The replies of the assistant that the messages table holds.\<close>

definition assistantMessages :: "world \<Rightarrow> message list" where
  "assistantMessages w = filter (\<lambda>m. m_role m = Assistant) (messages (db w))"


subsection \<open>A concrete environment and concrete stores\<close>

text \<open>\<open>toISOString().split('T')[0]\<close> for the timestamps of January 1970.\<close>

definition isoDateJan1970 :: "int \<Rightarrow> string" where
  "isoDateJan1970 t =
     ''1970-01-'' @ [''0123456789'' ! nat ((dayOf t + 1) div 10),
                     ''0123456789'' ! nat ((dayOf t + 1) mod 10)]"

text \<open>
  Sunday 11 January 1970, one second after midnight, with the store up; the week
  began on Monday the 5th (day 4), the month on day 0. \<open>JSON.parse\<close> is given on
  the one valid text that is used.
\<close>

definition januaryEnv :: "(nat \<Rightarrow> llm_request \<Rightarrow> llm_outcome) \<Rightarrow> env" where
  "januaryEnv service =
     \<lparr>clock = 10 * msPerDay + 1000, isoDate = isoDateJan1970, monthStart = (\<lambda>t. 0),
      newId = (\<lambda>n. ''c-new''), dbDown = (\<lambda>n. False), svc = service,
      parseJSON = (\<lambda>s. if s = ''{}'' then Some (JObj []) else None)\<rparr>"

definition steadyService :: "nat \<Rightarrow> llm_request \<Rightarrow> llm_outcome" where
  "steadyService n r = Responded [TextBlock ''a slow week'']"


definition failingService :: "nat \<Rightarrow> llm_request \<Rightarrow> llm_outcome" where
  "failingService n r = Rejected ''timeout''"


definition startWorld :: "tables \<Rightarrow> world" where
  "startWorld d = \<lparr>db = d, queries = 0, requests = []\<rparr>"

definition noTables :: tables where
  "noTables = \<lparr>entries = [], summaries = [], conversations = [], messages = []\<rparr>"


text \<open>A first message, on no entry, in no conversation yet.\<close>

definition hello :: chat_body where
  "hello = \<lparr>message = ''hello'', conversationId = None, entryId = None\<rparr>"

text \<open>A store with two entries of the user alice.\<close>

definition aliceStore :: tables where
  "aliceStore = \<lparr>entries =
      [\<lparr>e_id = ''a1'', e_user_id = ''alice'', e_content = ''alice private note'',
        e_mood = None, e_tags = [], e_themes = [], e_word_count = 3,
        e_created_at = 9 * msPerDay, e_deleted_at = None\<rparr>,
       \<lparr>e_id = ''a2'', e_user_id = ''alice'', e_content = ''alice second note'',
        e_mood = None, e_tags = [], e_themes = [], e_word_count = 3,
        e_created_at = 9 * msPerDay + 1, e_deleted_at = None\<rparr>],
     summaries = [], conversations = [], messages = []\<rparr>"





text \<open>
  The scenario of three entries written 6, 3 and 1 days before \<open>now\<close>, in the order
  they were inserted.
\<close>

definition scenarioEntries :: "string \<Rightarrow> int \<Rightarrow> entry list" where
  "scenarioEntries u now =
    [\<lparr>e_id = ''e1'', e_user_id = u, e_content = ''first'', e_mood = Some Rough,
      e_tags = [''work''], e_themes = [], e_word_count = 1,
      e_created_at = now - 6 * msPerDay, e_deleted_at = None\<rparr>,
     \<lparr>e_id = ''e2'', e_user_id = u, e_content = ''second'', e_mood = Some Okay,
      e_tags = [''work'', ''health''], e_themes = [], e_word_count = 1,
      e_created_at = now - 3 * msPerDay, e_deleted_at = None\<rparr>,
     \<lparr>e_id = ''e3'', e_user_id = u, e_content = ''third'', e_mood = Some Good,
      e_tags = [''wins''], e_themes = [], e_word_count = 1,
      e_created_at = now - 1 * msPerDay, e_deleted_at = None\<rparr>]"

section \<open>Properties of the two mood trends\<close>


lemma length_moodValues: "length (moodValues es) = length (filter (\<lambda>e. e \<noteq> None) es)"
  by (induction es rule: moodValues.induct) simp_all

lemma length_moodValues_le: "length (moodValues es) \<le> length es"
  by (simp add: length_moodValues)





text \<open>
  The trend of the insights route is the one that cuts the whole sequence: with at
  least two entries, each half is averaged over all its entries, an entry without a
  mood counting 0, and the thresholds are 0.1.
\<close>

lemma moodScore_average:
  "moodScore es = of_int (sum_list (map (\<lambda>e. case e of Some m \<Rightarrow> weights m | None \<Rightarrow> 0) es))
                    / of_nat (max (length es) 1)"
proof -
  have "foldl (\<lambda>sum e. case e of Some m \<Rightarrow> sum + weights m | None \<Rightarrow> sum) a es
          = a + sum_list (map (\<lambda>e. case e of Some m \<Rightarrow> weights m | None \<Rightarrow> 0) es)" for a
    by (induction es arbitrary: a) (simp_all split: option.splits)
  then show ?thesis by (simp add: moodScore_def)
qed

lemma moodTrend_whole_sequence:
  assumes "2 \<le> length es"
  defines "mid \<equiv> length es div 2"
  defines "weightOf \<equiv> (\<lambda>e. case e of Some m \<Rightarrow> weights m | None \<Rightarrow> 0)"
  defines "newerAvg \<equiv> (of_int (sum_list (map weightOf (take mid es))) :: rat)
                         / of_nat (length (take mid es))"
  defines "olderAvg \<equiv> (of_int (sum_list (map weightOf (drop mid es))) :: rat)
                         / of_nat (length (drop mid es))"
  shows "(moodTrend es = Up \<longleftrightarrow> newerAvg > olderAvg + 1 / 10)
       \<and> (moodTrend es = Down \<longleftrightarrow> newerAvg < olderAvg - 1 / 10)
       \<and> (moodTrend es = Stable \<longleftrightarrow> \<not> newerAvg > olderAvg + 1 / 10 \<and> \<not> newerAvg < olderAvg - 1 / 10)"
proof -
  have "1 \<le> mid" "1 \<le> length es - mid"
    using assms(1) unfolding mid_def by linarith+
  then have "max (length (take mid es)) 1 = length (take mid es)"
    "max (length (drop mid es)) 1 = length (drop mid es)"
    by simp_all
  then have "moodScore (take mid es) = newerAvg" "moodScore (drop mid es) = olderAvg"
    unfolding moodScore_average newerAvg_def olderAvg_def weightOf_def by simp_all
  then have "moodTrend es =
      (if newerAvg > olderAvg + 1 / 10 then Up
       else if newerAvg < olderAvg - 1 / 10 then Down else Stable)"
    by (simp add: moodTrend_def mid_def)
  then show ?thesis by auto
qed

text \<open>
  Claim C6, as the code has it. The trend of the context assembler answers the
  sentinel text for the empty sequence, for every single-entry sequence, and more
  generally whenever fewer than two entries carry a mood.
\<close>

theorem calculateMoodTrend_insufficient:
  assumes "length es < 2 \<or> length (filter (\<lambda>e. e \<noteq> None) es) < 2"
  shows "calculateMoodTrend es = ''Not enough data''
       \<and> calculateMoodTrend es \<noteq> ''Trending up compared to earlier this week''
       \<and> calculateMoodTrend es \<noteq> ''Trending down compared to earlier this week''
       \<and> calculateMoodTrend es \<noteq> ''Relatively stable this week''"
proof -
  have "length (filter (\<lambda>e. e \<noteq> None) es) \<le> length es"
    by (rule length_filter_le)
  with assms have "length (filter (\<lambda>e. e \<noteq> None) es) < 2"
    by arith
  then have "length (moodValues es) < 2"
    unfolding length_moodValues .
  then have "calculateMoodTrend es = ''Not enough data''"
    by (simp add: calculateMoodTrend_def)
  then show ?thesis by simp
qed

theorem calculateMoodTrend_insufficient_witness:
  "(length [Some Good] < 2 \<or> length (filter (\<lambda>e. e \<noteq> None) [Some Good]) < 2)
   \<and> calculateMoodTrend [Some Good] = ''Not enough data''
   \<and> calculateMoodTrend [] = ''Not enough data''"
  using calculateMoodTrend_insufficient [of "[Some Good]"]
    calculateMoodTrend_insufficient [of "[]"]
  by simp

text \<open>
  The trend of the insights route has no sentinel: its result type has the three
  trends only. The empty sequence is "stable"; a single entry is compared, as the
  older half, with an empty newer half of score 0.
\<close>

theorem moodTrend_no_sentinel:
  "moodTrend [] = Stable \<and> moodTrend [Some Good] = Down \<and> moodTrend [Some Rough] = Up
   \<and> moodTrend [None] = Stable"
  by (simp add: moodTrend_def moodScore_def weights_def)

section \<open>Properties of the insights aggregations\<close>

lemma scenario_rows:
  "selectSince u (startDateOf now None) (scenarioEntries u now) = rev (scenarioEntries u now)"
  by (simp add: selectSince_def startDateOf_def scenarioEntries_def orderByCreatedDesc_def
      msPerDay_def)

text \<open>
  Claim C2, as the code has it. The route reads the three entries newest first
  (T-1, T-3, T-6). The tag counts are work 2, wins 1, health 1, the ties in the order
  the tags are first met in that sequence. The midpoint is 1; the older half is
  T-3, T-6 with average -1/2, the newer half is T-1 with average 1; the trend is up.
\<close>

theorem scenario_insights:
  "map e_id (selectSince u (startDateOf now None) (scenarioEntries u now)) = [''e3'', ''e2'', ''e1'']
   \<and> topTags (selectSince u (startDateOf now None) (scenarioEntries u now))
       = [(''work'', 2), (''wins'', 1), (''health'', 1)]
   \<and> length (selectSince u (startDateOf now None) (scenarioEntries u now)) div 2 = 1
   \<and> map e_id (drop 1 (selectSince u (startDateOf now None) (scenarioEntries u now))) = [''e2'', ''e1'']
   \<and> moodScore (map e_mood (drop 1 (selectSince u (startDateOf now None) (scenarioEntries u now)))) = - 1 / 2
   \<and> map e_id (take 1 (selectSince u (startDateOf now None) (scenarioEntries u now))) = [''e3'']
   \<and> moodScore (map e_mood (take 1 (selectSince u (startDateOf now None) (scenarioEntries u now)))) = 1
   \<and> moodTrend (map e_mood (selectSince u (startDateOf now None) (scenarioEntries u now))) = Up"
  unfolding scenario_rows
  by (simp add: scenarioEntries_def topTags_def countLabels_def countInto_def
      sortByCountDesc_def moodScore_def moodTrend_def weights_def)

text \<open>
  The values of the claim (health before wins, trend down) are not what the route
  computes for these entries.
\<close>

theorem scenario_claimed_values_differ:
  "topTags (selectSince ''u'' (startDateOf (10 * msPerDay) None) (scenarioEntries ''u'' (10 * msPerDay)))
       \<noteq> [(''work'', 2), (''health'', 1), (''wins'', 1)]
   \<and> moodTrend (map e_mood
        (selectSince ''u'' (startDateOf (10 * msPerDay) None) (scenarioEntries ''u'' (10 * msPerDay))))
       \<noteq> Down"
  unfolding scenario_rows
  by (simp add: scenarioEntries_def topTags_def countLabels_def countInto_def
      sortByCountDesc_def moodScore_def moodTrend_def weights_def)

text \<open>
  The values of the claim are those of the aggregations applied to the entries in
  the order the scenario lists them, oldest first.
\<close>

lemma scenario_listed_order:
  "topTags (scenarioEntries u now) = [(''work'', 2), (''health'', 1), (''wins'', 1)]
   \<and> moodScore (map e_mood (drop 1 (scenarioEntries u now))) = 1 / 2
   \<and> moodScore (map e_mood (take 1 (scenarioEntries u now))) = - 1
   \<and> moodTrend (map e_mood (scenarioEntries u now)) = Down"
  by (simp add: scenarioEntries_def topTags_def countLabels_def countInto_def
      sortByCountDesc_def moodScore_def moodTrend_def weights_def)

section \<open>Properties of the streak\<close>



















section \<open>Properties of the prompt builder\<close>

lemma sublist_between: "ys = ps @ xs @ ss \<Longrightarrow> sublist xs ys"
  by (auto simp: sublist_def)

lemma buildSystemPrompt_shape:
  "buildSystemPrompt ctx cur =
     BASE_SYSTEM_PROMPT
       @ ''\<newline>\<newline>---\<newline>\<newline>## Current Context\<newline>\<newline>''
       @ ''### Recent Entries (Last 7 Days)''
       @ ''\<newline>'' @ joinWith ''\<newline>---\<newline>'' (map renderRecentEntry (recentEntries ctx))
       @ ''\<newline>\<newline>''
       @ ''### Mood Pattern''
       @ ''\<newline>'' @ moodTrend_cp ctx @ ''\<newline>\<newline>''
       @ ''### Recurring Themes''
       @ ''\<newline>''
       @ (if recurringThemes ctx = [] then ''No clear patterns yet''
          else joinWith '', '' (recurringThemes ctx))
       @ ''\<newline>\<newline>''
       @ ''### Long-Term Context''
       @ ''\<newline>''
       @ (if longTermSummary ctx = [] then ''No long-term summary available yet''
          else longTermSummary ctx)
       @ ''\<newline>\<newline>'' @ sessionSection cur"
  by (simp add: buildSystemPrompt_def contextSection_def)

lemma prompt_headings_in_order:
  "\<exists>a b c d e. buildSystemPrompt ctx cur =
     BASE_SYSTEM_PROMPT @ a @ ''### Recent Entries (Last 7 Days)'' @ b @ ''### Mood Pattern''
       @ c @ ''### Recurring Themes'' @ d @ ''### Long-Term Context'' @ e"
  by (rule exI [where x = "''\<newline>\<newline>---\<newline>\<newline>## Current Context\<newline>\<newline>''"],
      rule exI [where x = "''\<newline>'' @ joinWith ''\<newline>---\<newline>''
                             (map renderRecentEntry (recentEntries ctx)) @ ''\<newline>\<newline>''"],
      rule exI [where x = "''\<newline>'' @ moodTrend_cp ctx @ ''\<newline>\<newline>''"],
      rule exI [where x = "''\<newline>''
                             @ (if recurringThemes ctx = [] then ''No clear patterns yet''
                                else joinWith '', '' (recurringThemes ctx))
                             @ ''\<newline>\<newline>''"],
      rule exI [where x = "''\<newline>''
                             @ (if longTermSummary ctx = [] then ''No long-term summary available yet''
                                else longTermSummary ctx)
                             @ ''\<newline>\<newline>'' @ sessionSection cur"])
     (simp add: buildSystemPrompt_shape)

lemma prompt_no_entries:
  assumes "recentEntries ctx = []"
  shows "sublist ''### Recent Entries (Last 7 Days)\<newline>\<newline>\<newline>### Mood Pattern''
           (buildSystemPrompt ctx cur)"
  by (rule sublist_between
        [where ps = "BASE_SYSTEM_PROMPT
                       @ ''\<newline>\<newline>---\<newline>\<newline>## Current Context\<newline>\<newline>''"
           and ss = "''\<newline>'' @ moodTrend_cp ctx @ ''\<newline>\<newline>''
                       @ ''### Recurring Themes'' @ ''\<newline>''
                       @ (if recurringThemes ctx = [] then ''No clear patterns yet''
                          else joinWith '', '' (recurringThemes ctx))
                       @ ''\<newline>\<newline>'' @ ''### Long-Term Context'' @ ''\<newline>''
                       @ (if longTermSummary ctx = [] then ''No long-term summary available yet''
                          else longTermSummary ctx)
                       @ ''\<newline>\<newline>'' @ sessionSection cur"])
     (simp add: buildSystemPrompt_shape assms)

lemma prompt_no_themes:
  assumes "recurringThemes ctx = []"
  shows "sublist ''### Recurring Themes\<newline>No clear patterns yet\<newline>''
           (buildSystemPrompt ctx cur)"
  by (rule sublist_between
        [where ps = "BASE_SYSTEM_PROMPT
                       @ ''\<newline>\<newline>---\<newline>\<newline>## Current Context\<newline>\<newline>''
                       @ ''### Recent Entries (Last 7 Days)'' @ ''\<newline>''
                       @ joinWith ''\<newline>---\<newline>'' (map renderRecentEntry (recentEntries ctx))
                       @ ''\<newline>\<newline>'' @ ''### Mood Pattern''
                       @ ''\<newline>'' @ moodTrend_cp ctx @ ''\<newline>\<newline>''"
           and ss = "''\<newline>'' @ ''### Long-Term Context'' @ ''\<newline>''
                       @ (if longTermSummary ctx = [] then ''No long-term summary available yet''
                          else longTermSummary ctx)
                       @ ''\<newline>\<newline>'' @ sessionSection cur"])
     (simp add: buildSystemPrompt_shape assms)

lemma prompt_no_summary:
  assumes "longTermSummary ctx = []"
  shows "sublist ''### Long-Term Context\<newline>No long-term summary available yet\<newline>''
           (buildSystemPrompt ctx cur)"
  by (rule sublist_between
        [where ps = "BASE_SYSTEM_PROMPT
                       @ ''\<newline>\<newline>---\<newline>\<newline>## Current Context\<newline>\<newline>''
                       @ ''### Recent Entries (Last 7 Days)'' @ ''\<newline>''
                       @ joinWith ''\<newline>---\<newline>'' (map renderRecentEntry (recentEntries ctx))
                       @ ''\<newline>\<newline>'' @ ''### Mood Pattern''
                       @ ''\<newline>'' @ moodTrend_cp ctx @ ''\<newline>\<newline>''
                       @ ''### Recurring Themes'' @ ''\<newline>''
                       @ (if recurringThemes ctx = [] then ''No clear patterns yet''
                          else joinWith '', '' (recurringThemes ctx))
                       @ ''\<newline>\<newline>''"
           and ss = "''\<newline>'' @ sessionSection cur"])
     (simp add: buildSystemPrompt_shape assms)

lemma prompt_session_last:
  "buildSystemPrompt ctx (Some []) = buildSystemPrompt ctx None"
  "t \<noteq> [] \<Longrightarrow> buildSystemPrompt ctx (Some t) =
     buildSystemPrompt ctx None
       @ ''\<newline>## This Session\<newline>\<newline>### Current Entry Being Discussed\<newline>''
       @ t @ ''\<newline>''"
  by (simp_all add: buildSystemPrompt_def sessionSection_def)

text \<open>
  Claim C4, as the code has it. The four context sections are always rendered,
  under their headings and in the same order after the persona text, whatever the
  payload holds. Empty backing data does not remove a section: without recent
  entries the heading stands over an empty body, without recurring themes the
  section reads "No clear patterns yet", without a long-term summary it reads
  "No long-term summary available yet". Only the session section depends on its
  data: it is left out when there is no current entry (or an empty one) and is
  appended last otherwise.
\<close>

theorem prompt_sections_always_rendered:
  "(\<exists>a b c d e. buildSystemPrompt ctx cur =
       BASE_SYSTEM_PROMPT @ a @ ''### Recent Entries (Last 7 Days)'' @ b @ ''### Mood Pattern''
         @ c @ ''### Recurring Themes'' @ d @ ''### Long-Term Context'' @ e)
   \<and> (recentEntries ctx = [] \<longrightarrow>
        sublist ''### Recent Entries (Last 7 Days)\<newline>\<newline>\<newline>### Mood Pattern''
          (buildSystemPrompt ctx cur))
   \<and> (recurringThemes ctx = [] \<longrightarrow>
        sublist ''### Recurring Themes\<newline>No clear patterns yet\<newline>''
          (buildSystemPrompt ctx cur))
   \<and> (longTermSummary ctx = [] \<longrightarrow>
        sublist ''### Long-Term Context\<newline>No long-term summary available yet\<newline>''
          (buildSystemPrompt ctx cur))
   \<and> buildSystemPrompt ctx (Some []) = buildSystemPrompt ctx None
   \<and> (t \<noteq> [] \<longrightarrow>
        buildSystemPrompt ctx (Some t) =
          buildSystemPrompt ctx None
            @ ''\<newline>## This Session\<newline>\<newline>### Current Entry Being Discussed\<newline>''
            @ t @ ''\<newline>'')"
  using prompt_headings_in_order prompt_no_entries prompt_no_themes prompt_no_summary
    prompt_session_last
  by blast

theorem prompt_sections_always_rendered_witness:
  "recentEntries emptyContext = [] \<and> recurringThemes emptyContext = []
   \<and> longTermSummary emptyContext = [] \<and> ''today'' \<noteq> []
   \<and> sublist ''### Long-Term Context\<newline>No long-term summary available yet\<newline>''
        (buildSystemPrompt emptyContext (Some ''today''))
   \<and> buildSystemPrompt emptyContext (Some ''today'') =
        buildSystemPrompt emptyContext None
          @ ''\<newline>## This Session\<newline>\<newline>### Current Entry Being Discussed\<newline>''
          @ ''today'' @ ''\<newline>''"
proof -
  have empty: "recentEntries emptyContext = []" "recurringThemes emptyContext = []"
    "longTermSummary emptyContext = []"
    by (simp_all add: emptyContext_def)
  have nonempty: "''today'' \<noteq> []"
    by simp
  show ?thesis
    using prompt_sections_always_rendered [of emptyContext "Some ''today''" "''today''"]
      empty nonempty
    by blast
qed

text \<open>
  With no recurring themes the section is not omitted: its heading is in the
  prompt, followed by the placeholder.
\<close>

theorem prompt_keeps_empty_themes_section:
  "recurringThemes emptyContext = []
   \<and> sublist ''### Recurring Themes\<newline>No clear patterns yet\<newline>''
        (buildSystemPrompt emptyContext None)"
  using prompt_no_themes [of emptyContext None] by (simp add: emptyContext_def)

section \<open>Effects of the store and service operations\<close>

lemma query_effect:
  "query env q w = (r, w') \<Longrightarrow>
     requests w' = requests w \<and> queries w' = Suc (queries w)
     \<and> (if dbDown env (queries w) then r = Inl StoreError \<and> db w' = db w
         else r = Inr (fst (q (db w))) \<and> db w' = snd (q (db w)))"
  by (auto simp: query_def split: if_splits prod.splits)

lemma select_effect:
  "select env f w = (r, w') \<Longrightarrow>
     requests w' = requests w \<and> queries w' = Suc (queries w) \<and> db w' = db w
     \<and> (if dbDown env (queries w) then r = Inl StoreError else r = Inr (f (db w)))"
  by (auto simp: select_def dest!: query_effect split: if_splits)

lemma findOrCreate_effect:
  "findOrCreateConversation env u b w = (r, w') \<Longrightarrow>
     requests w' = requests w \<and> messages (db w') = messages (db w)
     \<and> entries (db w') = entries (db w)"
  by (auto simp: findOrCreateConversation_def bindIO_def ret_def Let_def
      split: option.splits prod.splits sum.splits if_splits dest!: query_effect select_effect)

lemma insertMessage_effect:
  "insertMessage env cid rl t w = (r, w') \<Longrightarrow>
     requests w' = requests w \<and> entries (db w') = entries (db w)
     \<and> (messages (db w') = messages (db w) \<or>
        messages (db w') = messages (db w)
          @ [\<lparr>m_conversation_id = cid, m_role = rl, m_content = t, m_created_at = clock env\<rparr>]
        \<and> (\<exists>x. r = Inr x))"
  by (auto simp: insertMessage_def dest!: query_effect split: if_splits)

lemma selectHistory_effect:
  "selectHistory env cid w = (r, w') \<Longrightarrow> requests w' = requests w \<and> db w' = db w"
  by (auto simp: selectHistory_def dest!: select_effect)

lemma assembleContext_effect:
  "assembleContext env u w = (r, w') \<Longrightarrow> requests w' = requests w \<and> db w' = db w"
  by (auto simp: assembleContext_def bindIO_def ret_def Let_def
      split: prod.splits sum.splits dest!: select_effect)

lemma selectCurrentEntry_effect:
  "selectCurrentEntry env c w = (r, w') \<Longrightarrow> requests w' = requests w \<and> db w' = db w"
  by (auto simp: selectCurrentEntry_def bindIO_def ret_def
      split: option.splits prod.splits sum.splits dest!: select_effect)

lemma touchConversation_effect:
  "touchConversation env cid w = (r, w') \<Longrightarrow>
     requests w' = requests w \<and> messages (db w') = messages (db w)"
  by (auto simp: touchConversation_def dest!: query_effect split: if_splits)

lemma chat_effect:
  "chat env ctx h cur w = (r, w') \<Longrightarrow>
     db w' = db w \<and> queries w' = queries w
     \<and> requests w' = requests w
          @ [\<lparr>max_tokens = 1024, system = buildSystemPrompt ctx cur, messages_of = h\<rparr>]
     \<and> r = (case svc env (length (requests w))
                  \<lparr>max_tokens = 1024, system = buildSystemPrompt ctx cur, messages_of = h\<rparr> of
              Rejected e \<Rightarrow> Inl (CompletionError e)
            | Responded blocks \<Rightarrow>
                Inr (textOr blocks ''I'm having trouble responding right now.''))"
  by (auto simp: chat_def bindIO_def ret_def messagesCreate_def Let_def
      split: llm_outcome.splits)


text \<open>Unfolding a handler on a concrete store.\<close>

lemmas run_defs = bindIO_def ret_def Let_def select_def query_def messagesCreate_def
  textOr_def userIdOf_def truthy_def januaryEnv_def startWorld_def msPerDay_def dayOf_def

section \<open>Properties of the summary route\<close>













section \<open>Properties of the chat route\<close>

text \<open>
  Claim C8. When a chat turn sends its request to the Completion Service and the
  service call fails, the turn fails with that completion error, and the assistant
  messages in the store are those from before the turn.
\<close>

theorem chat_failure_saves_no_reply:
  assumes "chatPost env header body w = (res, w')"
    and "requests w' = requests w @ [rq]"
    and "svc env (length (requests w)) rq = Rejected e"
  shows "res = Inl (CompletionError e) \<and> assistantMessages w' = assistantMessages w"
  using assms unfolding chatPost_def Let_def bindIO_def assistantMessages_def
  by (auto simp: ret_def split: prod.splits sum.splits option.splits
      dest!: findOrCreate_effect insertMessage_effect selectHistory_effect assembleContext_effect
        selectCurrentEntry_effect touchConversation_effect chat_effect)

lemmas chat_run_defs = chatPost_def findOrCreateConversation_def insertMessage_def
  selectHistory_def assembleContext_def selectCurrentEntry_def chat_def touchConversation_def
  selectSince_def orderByCreatedDesc_def selectLatestMonthly_def calculateMoodTrend_def
  countLabels_def sortByCountDesc_def noTables_def hello_def

theorem chat_failure_saves_no_reply_witness:
  "requests (snd (chatPost (januaryEnv failingService) None hello (startWorld noTables)))
     = requests (startWorld noTables)
         @ [\<lparr>max_tokens = 1024, system = buildSystemPrompt emptyContext None,
             messages_of = [(User, ''hello'')]\<rparr>]
   \<and> svc (januaryEnv failingService) (length (requests (startWorld noTables)))
         \<lparr>max_tokens = 1024, system = buildSystemPrompt emptyContext None,
          messages_of = [(User, ''hello'')]\<rparr> = Rejected ''timeout''
   \<and> fst (chatPost (januaryEnv failingService) None hello (startWorld noTables))
         = Inl (CompletionError ''timeout'')
   \<and> assistantMessages (snd (chatPost (januaryEnv failingService) None hello (startWorld noTables)))
         = assistantMessages (startWorld noTables)"
proof -
  have sent: "requests (snd (chatPost (januaryEnv failingService) None hello (startWorld noTables)))
     = requests (startWorld noTables)
         @ [\<lparr>max_tokens = 1024, system = buildSystemPrompt emptyContext None,
             messages_of = [(User, ''hello'')]\<rparr>]"
    by (simp add: run_defs chat_run_defs emptyContext_def failingService_def)
  have rejected: "svc (januaryEnv failingService) (length (requests (startWorld noTables)))
         \<lparr>max_tokens = 1024, system = buildSystemPrompt emptyContext None,
          messages_of = [(User, ''hello'')]\<rparr> = Rejected ''timeout''"
    by (simp add: run_defs failingService_def)
  from chat_failure_saves_no_reply [OF surjective_pairing sent rejected] sent rejected
  show ?thesis by simp
qed

text \<open>
  The system prompt of a turn that opens a conversation on an entry: the entry is
  looked up by its identifier alone, and its content is the current entry of the
  prompt.
\<close>

lemma new_conversation_prompt:
  assumes up: "\<And>n. \<not> dbDown env n"
    and new: "truthy (conversationId body) = None"
    and ref: "truthy (entryId body) = Some eid"
    and found: "filter (\<lambda>e. e_id e = eid) (entries (db w)) = e # others"
  shows "\<exists>ctx. fst (assembleContext env (userIdOf header) w) = Inr ctx
       \<and> map system (requests (snd (chatPost env header body w)))
           = map system (requests w) @ [buildSystemPrompt ctx (Some (e_content e))]"
proof -
  from ref have "eid \<noteq> []"
    by (auto simp: truthy_def split: option.splits if_splits)
  then have again: "truthy (Some eid) = Some eid"
    by (simp add: truthy_def)
  show ?thesis
    using up new ref found again
    by (simp add: chatPost_def findOrCreateConversation_def insertMessage_def selectHistory_def
        assembleContext_def selectCurrentEntry_def chat_def touchConversation_def bindIO_def
        ret_def Let_def select_def query_def messagesCreate_def split: llm_outcome.splits)
qed

lemma prompt_current_entry_inj:
  "a \<noteq> [] \<Longrightarrow> buildSystemPrompt ctx (Some a) = buildSystemPrompt ctx (Some b) \<Longrightarrow> a = b"
  by (auto simp: buildSystemPrompt_def sessionSection_def split: if_splits)

lemma prompt_current_entry_suffix:
  "a \<noteq> [] \<Longrightarrow> suffix (''### Current Entry Being Discussed\<newline>'' @ a @ ''\<newline>'')
      (buildSystemPrompt ctx (Some a))"
  unfolding suffix_def buildSystemPrompt_def sessionSection_def
  by (intro exI [of _ "BASE_SYSTEM_PROMPT @ ''\<newline>\<newline>---\<newline>'' @ contextSection ctx
       @ ''\<newline>'' @ ''\<newline>## This Session\<newline>\<newline>''"]) simp

text \<open>
  Claim C10. With the store up, a user who opens a conversation and names the
  entry of another user gets that entry's content into the system prompt, as the
  current entry at its end; naming another entry instead changes the prompt with
  the content. No ownership is checked when the conversation is created, and none
  when the entry is read.
\<close>

theorem foreign_entry_reaches_prompt:
  assumes up: "\<And>n. \<not> dbDown env n"
    and new: "truthy (conversationId body) = None"
    and id1: "eid1 \<noteq> []" and e1: "filter (\<lambda>e. e_id e = eid1) (entries (db w)) = e1 # others1"
    and id2: "eid2 \<noteq> []" and e2: "filter (\<lambda>e. e_id e = eid2) (entries (db w)) = e2 # others2"
    and foreign: "e_user_id e1 \<noteq> userIdOf header"
    and content1: "e_content e1 \<noteq> []"
    and differ: "e_content e1 \<noteq> e_content e2"
  shows "\<exists>ctx p1 p2.
       fst (assembleContext env (userIdOf header) w) = Inr ctx
     \<and> map system (requests (snd (chatPost env header (body\<lparr>entryId := Some eid1\<rparr>) w)))
         = map system (requests w) @ [p1]
     \<and> map system (requests (snd (chatPost env header (body\<lparr>entryId := Some eid2\<rparr>) w)))
         = map system (requests w) @ [p2]
     \<and> p1 = buildSystemPrompt ctx (Some (e_content e1))
     \<and> p2 = buildSystemPrompt ctx (Some (e_content e2))
     \<and> suffix (''### Current Entry Being Discussed\<newline>'' @ e_content e1 @ ''\<newline>'') p1
     \<and> p1 \<noteq> p2"
proof -
  have new1: "truthy (conversationId (body\<lparr>entryId := Some eid1\<rparr>)) = None"
    and new2: "truthy (conversationId (body\<lparr>entryId := Some eid2\<rparr>)) = None"
    using new by simp_all
  have ref1: "truthy (entryId (body\<lparr>entryId := Some eid1\<rparr>)) = Some eid1"
    and ref2: "truthy (entryId (body\<lparr>entryId := Some eid2\<rparr>)) = Some eid2"
    using id1 id2 by (simp_all add: truthy_def)
  obtain ctx where ctx: "fst (assembleContext env (userIdOf header) w) = Inr ctx"
    and sent1: "map system (requests (snd (chatPost env header (body\<lparr>entryId := Some eid1\<rparr>) w)))
           = map system (requests w) @ [buildSystemPrompt ctx (Some (e_content e1))]"
    using new_conversation_prompt [OF up new1 ref1 e1] by blast
  obtain ctx' where ctx': "fst (assembleContext env (userIdOf header) w) = Inr ctx'"
    and sent2: "map system (requests (snd (chatPost env header (body\<lparr>entryId := Some eid2\<rparr>) w)))
           = map system (requests w) @ [buildSystemPrompt ctx' (Some (e_content e2))]"
    using new_conversation_prompt [OF up new2 ref2 e2] by blast
  have same: "ctx' = ctx"
    using ctx ctx' by simp
  have "buildSystemPrompt ctx (Some (e_content e1)) \<noteq> buildSystemPrompt ctx (Some (e_content e2))"
    using prompt_current_entry_inj [OF content1] differ by blast
  then show ?thesis
    using ctx sent1 sent2 prompt_current_entry_suffix [OF content1] unfolding same by blast
qed

theorem foreign_entry_reaches_prompt_witness:
  "(\<forall>n. \<not> dbDown (januaryEnv steadyService) n)
   \<and> truthy (conversationId hello) = None
   \<and> filter (\<lambda>e. e_id e = ''a1'') (entries (db (startWorld aliceStore)))
       = [hd (entries aliceStore)]
   \<and> e_user_id (hd (entries aliceStore)) = ''alice''
   \<and> userIdOf (Some ''bob'') = ''bob''
   \<and> (\<exists>ctx p1 p2.
         fst (assembleContext (januaryEnv steadyService) (userIdOf (Some ''bob''))
                (startWorld aliceStore)) = Inr ctx
       \<and> map system (requests (snd (chatPost (januaryEnv steadyService) (Some ''bob'')
              (hello\<lparr>entryId := Some ''a1''\<rparr>) (startWorld aliceStore))))
           = map system (requests (startWorld aliceStore)) @ [p1]
       \<and> map system (requests (snd (chatPost (januaryEnv steadyService) (Some ''bob'')
              (hello\<lparr>entryId := Some ''a2''\<rparr>) (startWorld aliceStore))))
           = map system (requests (startWorld aliceStore)) @ [p2]
       \<and> p1 = buildSystemPrompt ctx (Some ''alice private note'')
       \<and> p2 = buildSystemPrompt ctx (Some ''alice second note'')
       \<and> suffix (''### Current Entry Being Discussed\<newline>'' @ ''alice private note''
                   @ ''\<newline>'') p1
       \<and> p1 \<noteq> p2)"
proof -
  have up: "\<And>n. \<not> dbDown (januaryEnv steadyService) n"
    by (simp add: januaryEnv_def)
  have new: "truthy (conversationId hello) = None"
    by (simp add: hello_def truthy_def)
  have e1: "filter (\<lambda>e. e_id e = ''a1'') (entries (db (startWorld aliceStore)))
       = hd (entries aliceStore) # []"
    and e2: "filter (\<lambda>e. e_id e = ''a2'') (entries (db (startWorld aliceStore)))
       = hd (tl (entries aliceStore)) # []"
    by (simp_all add: startWorld_def aliceStore_def)
  have facts: "e_user_id (hd (entries aliceStore)) = ''alice''" "userIdOf (Some ''bob'') = ''bob''"
    "e_content (hd (entries aliceStore)) = ''alice private note''"
    "e_content (hd (tl (entries aliceStore))) = ''alice second note''"
    by (simp_all add: aliceStore_def userIdOf_def)
  have "\<exists>ctx p1 p2.
         fst (assembleContext (januaryEnv steadyService) (userIdOf (Some ''bob''))
                (startWorld aliceStore)) = Inr ctx
       \<and> map system (requests (snd (chatPost (januaryEnv steadyService) (Some ''bob'')
              (hello\<lparr>entryId := Some ''a1''\<rparr>) (startWorld aliceStore))))
           = map system (requests (startWorld aliceStore)) @ [p1]
       \<and> map system (requests (snd (chatPost (januaryEnv steadyService) (Some ''bob'')
              (hello\<lparr>entryId := Some ''a2''\<rparr>) (startWorld aliceStore))))
           = map system (requests (startWorld aliceStore)) @ [p2]
       \<and> p1 = buildSystemPrompt ctx (Some (e_content (hd (entries aliceStore))))
       \<and> p2 = buildSystemPrompt ctx (Some (e_content (hd (tl (entries aliceStore)))))
       \<and> suffix (''### Current Entry Being Discussed\<newline>''
                   @ e_content (hd (entries aliceStore)) @ ''\<newline>'') p1
       \<and> p1 \<noteq> p2"
    by (rule foreign_entry_reaches_prompt [OF up new _ e1 _ e2]) (simp_all add: facts)
  then show ?thesis
    using up new e1 facts by simp
qed


section \<open>Propagation of failures\<close>



























end
